theory Spec2Isabelle
  imports Complex_Main "HOL-Library.Sublist"
begin

section \<open>The market view: stock list, search filter and chart columns\<close>

text \<open>
  This theory embeds the script of \<^verbatim>\<open>src/frontend/src/views/MarketView.vue\<close>.
  The component keeps a handful of reactive cells (\<^verbatim>\<open>stocks\<close>, \<^verbatim>\<open>searchQuery\<close>,
  \<^verbatim>\<open>currentSymbol\<close>, \<^verbatim>\<open>chartInstance\<close>, \<^verbatim>\<open>chartRef\<close>, \<^verbatim>\<open>loading\<close>, \<^verbatim>\<open>error\<close>); they
  become one record that every method takes and returns. The HTTP client is the
  environment: a server is a function from the requested URL to a response, and every
  call of \<^verbatim>\<open>axios.get\<close> appends its URL to a log kept in the state, so that "which
  requests were issued" is a property of the final state. An \<^verbatim>\<open>async\<close> method runs in
  two pieces, the part before its \<^verbatim>\<open>await\<close> and the part after it; other handlers can
  run between the two, and both pieces are definitions of their own.
\<close>

subsection \<open>Strings\<close>

text \<open>
  A JavaScript string is modelled as a \<^typ>\<open>string\<close>, the UTF-8 bytes of its text. For
  well-formed text a substring test on the bytes agrees with the one on the code units.
  \<^verbatim>\<open>String.prototype.includes\<close> is the contiguous-substring test; the empty string is
  included in every string.
\<close>

fun str_includes :: "string \<Rightarrow> string \<Rightarrow> bool" where
  "str_includes [] q = (q = [])"
| "str_includes (c # cs) q = (prefix q (c # cs) \<or> str_includes cs q)"

text \<open>
  \<^verbatim>\<open>String.prototype.toLowerCase\<close> on the ASCII range: the letters \<^verbatim>\<open>A\<close> to \<^verbatim>\<open>Z\<close>
  (codes 65 to 90) move to \<^verbatim>\<open>a\<close> to \<^verbatim>\<open>z\<close>, every other byte stays. This is the
  built-in function on text whose cased letters are all ASCII. Cased letters outside
  ASCII, which the built-in function maps as well, are not covered by this model; the
  general theorems below hold for any case mapping, and the sample inputs are ASCII.
\<close>

definition toLowerCase_char :: "char \<Rightarrow> char" where
  "toLowerCase_char c =
     (let n = (of_char c :: nat) in if 65 \<le> n \<and> n \<le> 90 then char_of (n + 32) else c)"

definition toLowerCase :: "string \<Rightarrow> string" where
  "toLowerCase s = map toLowerCase_char s"

subsection \<open>Data model\<close>

text \<open>A stock descriptor, as returned by the list endpoint: \<^verbatim>\<open>{symbol, name}\<close>.\<close>

record stock =
  symbol :: string
  name :: string

text \<open>
  One row of the time series. The fields are those read by \<^verbatim>\<open>renderChart\<close>
  (\<^verbatim>\<open>item.date\<close>, \<^verbatim>\<open>item.open\<close>, ...); a JSON number is a finite double, whose order
  is the order of the real number it denotes, and the code only copies and compares
  these numbers.
\<close>

record item =
  item_date :: string
  item_open :: real
  item_close :: real
  item_low :: real
  item_high :: real
  item_volume :: real
  item_ma20 :: real
  item_vol_ma5 :: real
  item_macd :: real
  item_diff :: real
  item_dea :: real
  item_k :: real
  item_d :: real
  item_j :: real

text \<open>
  The body of the kline endpoint, \<^verbatim>\<open>{data: [...]}\<close>, as \<^verbatim>\<open>loadChartData\<close> reads it: the
  field \<^verbatim>\<open>data\<close> is the array of rows, or \<^term>\<open>None\<close> when the body that arrived
  has no array there (the code does not validate the body).
\<close>

record kline_body =
  data :: "item list option"

text \<open>
  \<^verbatim>\<open>axios.get\<close> either resolves with a response whose \<^verbatim>\<open>data\<close> is the parsed body, or
  rejects (the \<^verbatim>\<open>catch\<close> branch).
\<close>

datatype 'a response = Rejected | Resolved 'a

record api =
  stocks_endpoint :: "string \<Rightarrow> stock list response"
  kline_endpoint :: "string \<Rightarrow> kline_body response"

subsection \<open>The chart option\<close>

text \<open>
  The part of the ECharts option that carries data: the title, the category data of the
  four x axes and the ten series. A colour callback is kept as data: the volume bars
  look their colour up by \<^verbatim>\<open>params.dataIndex\<close> in the captured array \<^verbatim>\<open>volColors\<close>, the
  MACD bars decide by the sign of \<^verbatim>\<open>params.value\<close>. Grids, y axes, zoom and the static
  styles are constants of the source and are left out.
\<close>

datatype series_type = Candlestick | Line | Bar

datatype series_data = Tuples "real list list" | Numbers "real list"

datatype item_color = NoCallback | ByDataIndex "string list" | ByValueSign

record series =
  series_name :: string
  series_type :: series_type
  series_data :: series_data
  series_color :: item_color
  xAxisIndex :: nat
  yAxisIndex :: nat

record chart_option =
  title_text :: string
  xAxis_data :: "string list list"
  series_list :: "series list"

text \<open>The local arrays of \<^verbatim>\<open>renderChart\<close> (source lines 107 to 118).\<close>

record columns =
  dates :: "string list"
  klineData :: "real list list"
  volumes :: "real list"
  volColors :: "string list"
  ma20 :: "real list"
  volMa5 :: "real list"
  macd :: "real list"
  diff :: "real list"
  dea :: "real list"
  col_k :: "real list"
  col_d :: "real list"
  col_j :: "real list"

definition extract_columns :: "item list \<Rightarrow> columns" where
  "extract_columns xs =
     \<lparr> dates = map item_date xs,
       klineData = map (\<lambda>i. [item_open i, item_close i, item_low i, item_high i]) xs,
       volumes = map item_volume xs,
       volColors = map (\<lambda>i. if item_close i > item_open i then ''#ef232a'' else ''#14b143'') xs,
       ma20 = map item_ma20 xs,
       volMa5 = map item_vol_ma5 xs,
       macd = map item_macd xs,
       diff = map item_diff xs,
       dea = map item_dea xs,
       col_k = map item_k xs,
       col_d = map item_d xs,
       col_j = map item_j xs \<rparr>"

text \<open>The two literals with non-ASCII text, as UTF-8 bytes: the chart title suffix
  (a blank, \<^verbatim>\<open>K\<close> and the two characters for "line chart") and the name of the
  candlestick series (the character for "day", then \<^verbatim>\<open>K\<close>).\<close>

definition title_suffix :: string where
  "title_suffix = [CHR 0x20, CHR 0x4B, CHR 0xE7, CHR 0xBA, CHR 0xBF, CHR 0xE5, CHR 0x9B, CHR 0xBE]"

definition daily_k_name :: string where
  "daily_k_name = [CHR 0xE6, CHR 0x97, CHR 0xA5, CHR 0x4B]"

definition mk_series :: "string \<Rightarrow> series_type \<Rightarrow> series_data \<Rightarrow> item_color \<Rightarrow> nat \<Rightarrow> series" where
  "mk_series n t d c g =
     \<lparr> series_name = n, series_type = t, series_data = d, series_color = c,
       xAxisIndex = g, yAxisIndex = g \<rparr>"

definition build_option :: "string \<Rightarrow> item list \<Rightarrow> chart_option" where
  "build_option symb xs =
     (let c = extract_columns xs in
      \<lparr> title_text = symb @ title_suffix,
        xAxis_data = [dates c, dates c, dates c, dates c],
        series_list =
          [ mk_series daily_k_name Candlestick (Tuples (klineData c)) NoCallback 0,
            mk_series ''MA20'' Line (Numbers (ma20 c)) NoCallback 0,
            mk_series ''Volume'' Bar (Numbers (volumes c)) (ByDataIndex (volColors c)) 1,
            mk_series ''VOL_MA5'' Line (Numbers (volMa5 c)) NoCallback 1,
            mk_series ''MACD'' Bar (Numbers (macd c)) ByValueSign 2,
            mk_series ''DIFF'' Line (Numbers (diff c)) NoCallback 2,
            mk_series ''DEA'' Line (Numbers (dea c)) NoCallback 2,
            mk_series ''K'' Line (Numbers (col_k c)) NoCallback 3,
            mk_series ''D'' Line (Numbers (col_d c)) NoCallback 3,
            mk_series ''J'' Line (Numbers (col_j c)) NoCallback 3 ] \<rparr>)"

text \<open>
  Reading the option back, as the charting library does: the series of a given name, the
  number a series holds at an index, and the colour its callback returns for the bar at
  an index (an array read out of range is \<^verbatim>\<open>undefined\<close>, here \<^term>\<open>None\<close>).
\<close>

definition series_named :: "chart_option \<Rightarrow> string \<Rightarrow> series option" where
  "series_named opt n = find (\<lambda>s. series_name s = n) (series_list opt)"

fun numbers_of :: "series_data \<Rightarrow> real list" where
  "numbers_of (Numbers vs) = vs"
| "numbers_of (Tuples ts) = []"

fun tuples_of :: "series_data \<Rightarrow> real list list" where
  "tuples_of (Tuples ts) = ts"
| "tuples_of (Numbers vs) = []"

definition series_numbers :: "chart_option \<Rightarrow> string \<Rightarrow> real list" where
  "series_numbers opt n = (case series_named opt n of None \<Rightarrow> [] | Some s \<Rightarrow> numbers_of (series_data s))"

definition series_tuples :: "chart_option \<Rightarrow> string \<Rightarrow> real list list" where
  "series_tuples opt n = (case series_named opt n of None \<Rightarrow> [] | Some s \<Rightarrow> tuples_of (series_data s))"

fun apply_color :: "item_color \<Rightarrow> nat \<Rightarrow> real \<Rightarrow> string option" where
  "apply_color NoCallback i v = None"
| "apply_color (ByDataIndex cs) i v = (if i < length cs then Some (cs ! i) else None)"
| "apply_color ByValueSign i v = Some (if v > 0 then ''#ef232a'' else ''#14b143'')"

definition bar_color :: "chart_option \<Rightarrow> string \<Rightarrow> nat \<Rightarrow> string option" where
  "bar_color opt n i =
     (case series_named opt n of
        None \<Rightarrow> None
      | Some s \<Rightarrow>
          (let vs = numbers_of (series_data s) in
           if i < length vs then apply_color (series_color s) i (vs ! i) else None))"

subsection \<open>Component state and methods\<close>

record view_state =
  stocks :: "stock list"
  searchQuery :: string
  currentSymbol :: string
  chartInstance :: "chart_option option"
  chartRef :: bool
  loading :: bool
  error :: "string option"
  requests :: "string list"

text \<open>
  \<^verbatim>\<open>chartInstance\<close> holds the option that the live chart was given by \<^verbatim>\<open>setOption\<close>,
  or nothing when there is no chart or the chart was created and given no option;
  \<^verbatim>\<open>chartRef\<close> tells whether the template element is bound; \<^verbatim>\<open>requests\<close> is the log of
  URLs requested so far.
\<close>

definition initial_state :: view_state where
  "initial_state =
     \<lparr> stocks = [], searchQuery = [], currentSymbol = [], chartInstance = None,
       chartRef = False, loading = False, error = None, requests = [] \<rparr>"

definition API_BASE :: string where
  "API_BASE = ''http://localhost:8000''"

definition list_url :: string where
  "list_url = API_BASE @ ''/stocks/list''"

definition kline_url :: "string \<Rightarrow> string" where
  "kline_url symb = API_BASE @ ''/stocks/'' @ symb @ ''/kline''"

text \<open>The two error messages ("cannot load the stock list", "cannot load the K-line
  data"), as UTF-8 bytes.\<close>

definition list_error_text :: string where
  "list_error_text =
     [CHR 0xE6, CHR 0x97, CHR 0xA0, CHR 0xE6, CHR 0xB3, CHR 0x95, CHR 0xE5, CHR 0x8A, CHR 0xA0,
      CHR 0xE8, CHR 0xBD, CHR 0xBD, CHR 0xE8, CHR 0x82, CHR 0xA1, CHR 0xE7, CHR 0xA5, CHR 0xA8,
      CHR 0xE5, CHR 0x88, CHR 0x97, CHR 0xE8, CHR 0xA1, CHR 0xA8]"

definition kline_error_text :: string where
  "kline_error_text =
     [CHR 0xE6, CHR 0x97, CHR 0xA0, CHR 0xE6, CHR 0xB3, CHR 0x95, CHR 0xE5, CHR 0x8A, CHR 0xA0,
      CHR 0xE8, CHR 0xBD, CHR 0xBD, CHR 0x4B, CHR 0xE7, CHR 0xBA, CHR 0xBF, CHR 0xE6, CHR 0x95,
      CHR 0xB0, CHR 0xE6, CHR 0x8D, CHR 0xAE]"

definition axios_get :: "(string \<Rightarrow> 'a response) \<Rightarrow> string \<Rightarrow> view_state \<Rightarrow> 'a response \<times> view_state" where
  "axios_get endpoint url s = (endpoint url, s\<lparr>requests := requests s @ [url]\<rparr>)"

text \<open>The computed list shown in the sidebar (source lines 54 to 60).\<close>

definition filteredStocks :: "view_state \<Rightarrow> stock list" where
  "filteredStocks s =
     (if searchQuery s = [] then stocks s
      else let query = toLowerCase (searchQuery s) in
        filter (\<lambda>st. str_includes (symbol st) query \<or> str_includes (toLowerCase (name st)) query)
          (stocks s))"

text \<open>
  The same computed property, told by which array object it returns: the first branch
  returns \<^verbatim>\<open>stocks.value\<close>, the stored array itself, and \<^verbatim>\<open>Array.prototype.filter\<close> in
  the second branch allocates a new array.
\<close>

datatype 'a array_result = StoredArray | NewArray "'a list"

definition filteredStocks_ref :: "view_state \<Rightarrow> stock array_result" where
  "filteredStocks_ref s =
     (if searchQuery s = [] then StoredArray
      else let query = toLowerCase (searchQuery s) in
        NewArray
          (filter (\<lambda>st. str_includes (symbol st) query \<or> str_includes (toLowerCase (name st)) query)
             (stocks s)))"

fun array_of :: "view_state \<Rightarrow> stock array_result \<Rightarrow> stock list" where
  "array_of s StoredArray = stocks s"
| "array_of s (NewArray xs) = xs"

text \<open>
  \<^verbatim>\<open>renderChart\<close>: nothing happens without the element; otherwise the old chart is
  disposed and a new one is created, then the arrays are extracted and the option is
  given to the new chart. \<^verbatim>\<open>data.map\<close> throws a TypeError when \<^verbatim>\<open>data\<close> is not an array;
  by then the new, empty chart is already in \<^verbatim>\<open>chartInstance\<close>. The result says how the
  call completed and gives the state it left.
\<close>

datatype completion = Normal | Thrown

definition renderChart :: "string \<Rightarrow> item list option \<Rightarrow> view_state \<Rightarrow> completion \<times> view_state" where
  "renderChart symb d s =
     (if \<not> chartRef s then (Normal, s)
      else case d of
        None \<Rightarrow> (Thrown, s\<lparr>chartInstance := None\<rparr>)
      | Some xs \<Rightarrow> (Normal, s\<lparr>chartInstance := Some (build_option symb xs)\<rparr>))"

text \<open>
  \<^verbatim>\<open>loadChartData\<close> in its two pieces. Up to the \<^verbatim>\<open>await\<close>: the flags are set and the
  request is issued; the response that will arrive is returned with the state. After the
  \<^verbatim>\<open>await\<close>, in whatever state the component is by then: the rest of the \<^verbatim>\<open>try\<close> block,
  whose \<^verbatim>\<open>catch\<close> takes a rejected request and an exception of \<^verbatim>\<open>renderChart\<close> alike, and
  the \<^verbatim>\<open>finally\<close> block.
\<close>

definition loadChartData_begin :: "api \<Rightarrow> string \<Rightarrow> view_state \<Rightarrow> kline_body response \<times> view_state" where
  "loadChartData_begin srv symb s =
     (let s1 = s\<lparr>loading := True, error := None\<rparr>
      in axios_get (kline_endpoint srv) (kline_url symb) s1)"

definition loadChartData_resume :: "string \<Rightarrow> kline_body response \<Rightarrow> view_state \<Rightarrow> view_state" where
  "loadChartData_resume symb res s2 =
     (let s3 = (case res of
                  Resolved body \<Rightarrow>
                    (case renderChart symb (data body) s2 of
                       (Normal, s') \<Rightarrow> s'
                     | (Thrown, s') \<Rightarrow> s'\<lparr>error := Some kline_error_text\<rparr>)
                | Rejected \<Rightarrow> s2\<lparr>error := Some kline_error_text\<rparr>)
      in s3\<lparr>loading := False\<rparr>)"

text \<open>A load that nothing interrupts: the second piece runs in the state the first left.\<close>

definition loadChartData :: "api \<Rightarrow> string \<Rightarrow> view_state \<Rightarrow> view_state" where
  "loadChartData srv symb s =
     (let (res, s2) = loadChartData_begin srv symb s
      in loadChartData_resume symb res s2)"

definition selectStock :: "api \<Rightarrow> stock \<Rightarrow> view_state \<Rightarrow> view_state" where
  "selectStock srv st s =
     (if currentSymbol s = symbol st then s
      else loadChartData srv (symbol st) (s\<lparr>currentSymbol := symbol st\<rparr>))"

definition fetchStocks :: "api \<Rightarrow> view_state \<Rightarrow> view_state" where
  "fetchStocks srv s =
     (let (res, s1) = axios_get (stocks_endpoint srv) list_url s in
      case res of
        Resolved body \<Rightarrow>
          (let s2 = s1\<lparr>stocks := body\<rparr> in
           if length (stocks s2) > 0 then selectStock srv (stocks s2 ! 0) s2 else s2)
      | Rejected \<Rightarrow> s1\<lparr>error := Some list_error_text\<rparr>)"

text \<open>
  The click handler calls \<^verbatim>\<open>selectStock\<close> and does not wait for it: the call returns at
  the \<^verbatim>\<open>await\<close> inside \<^verbatim>\<open>loadChartData\<close>, with the load in flight. A load in flight is
  its symbol and the response that will arrive.
\<close>

type_synonym in_flight = "string \<times> kline_body response"

definition selectStock_begin :: "api \<Rightarrow> stock \<Rightarrow> view_state \<Rightarrow> in_flight list \<times> view_state" where
  "selectStock_begin srv st s =
     (if currentSymbol s = symbol st then ([], s)
      else let (res, s2) = loadChartData_begin srv (symbol st) (s\<lparr>currentSymbol := symbol st\<rparr>)
           in ([(symbol st, res)], s2))"

text \<open>
  The events of a page session after the list was fetched: typing in the search box
  (\<^verbatim>\<open>v-model\<close> stores the text), clicking a stock item, resizing the window (the chart is
  resized, its option stays), and the arrival of the response of one of the loads in
  flight, in any order. A session state is the component state with the loads in flight.
\<close>

datatype event = Input string | Click stock | Resize | Settle nat

fun handle :: "api \<Rightarrow> event \<Rightarrow> view_state \<times> in_flight list \<Rightarrow> view_state \<times> in_flight list" where
  "handle srv (Input q) (s, fs) = (s\<lparr>searchQuery := q\<rparr>, fs)"
| "handle srv (Click st) (s, fs) =
     (let (new, s') = selectStock_begin srv st s in (s', fs @ new))"
| "handle srv Resize (s, fs) = (s, fs)"
| "handle srv (Settle k) (s, fs) =
     (if k < length fs
      then (loadChartData_resume (fst (fs ! k)) (snd (fs ! k)) s, take k fs @ drop (Suc k) fs)
      else (s, fs))"

fun session :: "api \<Rightarrow> event list \<Rightarrow> view_state \<times> in_flight list \<Rightarrow> view_state \<times> in_flight list" where
  "session srv [] c = c"
| "session srv (e # es) c = session srv es (handle srv e c)"

subsection \<open>The search filter as the specification words it\<close>

text \<open>
  The specification describes the filter as a case-insensitive substring match of the
  query against the symbol or the display name. The following definitions follow these
  words, not the source: both sides of each comparison are put in lower case.
\<close>

definition contains_ci :: "string \<Rightarrow> string \<Rightarrow> bool" where
  "contains_ci s q = sublist (toLowerCase q) (toLowerCase s)"

definition spec_matches :: "string \<Rightarrow> stock \<Rightarrow> bool" where
  "spec_matches q st = (contains_ci (symbol st) q \<or> contains_ci (name st) q)"

definition spec_filteredStocks :: "view_state \<Rightarrow> stock list" where
  "spec_filteredStocks s = filter (spec_matches (searchQuery s)) (stocks s)"

subsection \<open>Sample data\<close>

definition pf_bank :: stock where
  "pf_bank = \<lparr> symbol = ''600000'', name = ''PF Bank'' \<rparr>"

definition aapl :: stock where
  "aapl = \<lparr> symbol = ''AAPL'', name = ''Apple Inc'' \<rparr>"

definition unnamed_stock :: stock where
  "unnamed_stock = \<lparr> symbol = [], name = ''Blank'' \<rparr>"

definition demo_rows :: "item list" where
  "demo_rows =
     [ \<lparr> item_date = ''2024-01-02'', item_open = 10, item_close = 11, item_low = 9,
         item_high = 12, item_volume = 1000, item_ma20 = 10.5, item_vol_ma5 = 900,
         item_macd = 0.2, item_diff = 0.3, item_dea = 0.1, item_k = 55, item_d = 50,
         item_j = 65 \<rparr>,
       \<lparr> item_date = ''2024-01-03'', item_open = 11, item_close = 11, item_low = 10,
         item_high = 13, item_volume = 1200, item_ma20 = 10.6, item_vol_ma5 = 950,
         item_macd = - 0.1, item_diff = 0.2, item_dea = 0.3, item_k = 60, item_d = 52,
         item_j = 76 \<rparr> ]"

text \<open>
  Four servers: one that lists two stocks and has a series for the first only, one whose
  list is empty, one whose only stock has the empty string as its symbol, and one whose
  kline bodies carry no array of rows.
\<close>

definition demo_api :: api where
  "demo_api =
     \<lparr> stocks_endpoint = (\<lambda>url. if url = list_url then Resolved [pf_bank, aapl] else Rejected),
       kline_endpoint =
         (\<lambda>url. if url = kline_url ''600000'' then Resolved \<lparr> data = Some demo_rows \<rparr>
                else Rejected) \<rparr>"

definition empty_api :: api where
  "empty_api =
     \<lparr> stocks_endpoint = (\<lambda>url. Resolved []),
       kline_endpoint = (\<lambda>url. Rejected) \<rparr>"

definition blank_api :: api where
  "blank_api =
     \<lparr> stocks_endpoint = (\<lambda>url. Resolved [unnamed_stock]),
       kline_endpoint = (\<lambda>url. Resolved \<lparr> data = Some demo_rows \<rparr>) \<rparr>"

definition nodata_api :: api where
  "nodata_api =
     \<lparr> stocks_endpoint = (\<lambda>url. Resolved [pf_bank, aapl]),
       kline_endpoint = (\<lambda>url. Resolved \<lparr> data = None \<rparr>) \<rparr>"

text \<open>The state when \<^verbatim>\<open>onMounted\<close> runs: the template element is bound.\<close>

definition mounted_state :: view_state where
  "mounted_state = initial_state\<lparr>chartRef := True\<rparr>"

definition watching_pf_bank :: view_state where
  "watching_pf_bank = mounted_state\<lparr>stocks := [pf_bank, aapl], currentSymbol := ''600000''\<rparr>"

definition searching_AAPL :: view_state where
  "searching_AAPL = mounted_state\<lparr>stocks := [aapl], searchQuery := ''AAPL''\<rparr>"


section \<open>Properties\<close>

subsection \<open>Auxiliary facts\<close>

lemmas option_defs =
  series_named_def series_numbers_def series_tuples_def bar_color_def build_option_def
  mk_series_def daily_k_name_def extract_columns_def Let_def

lemmas sample_defs =
  pf_bank_def aapl_def unnamed_stock_def demo_rows_def demo_api_def empty_api_def
  blank_api_def nodata_api_def mounted_state_def initial_state_def watching_pf_bank_def searching_AAPL_def
  list_url_def kline_url_def API_BASE_def

lemma str_includes_sublist: "str_includes s q = sublist q s"
  by (induction s) (simp_all add: sublist_Cons_right)

lemma toLowerCase_AAPL: "toLowerCase ''AAPL'' = ''aapl''"
  by code_simp

lemma toLowerCase_Apple_Inc: "toLowerCase ''Apple Inc'' = ''apple inc''"
  by code_simp

text \<open>What the source's filter computes for a query that is not empty: the symbol is
  compared as it is, only the name is put in lower case.\<close>

lemma filteredStocks_nonempty_query:
  assumes "searchQuery s \<noteq> []"
  shows "filteredStocks s =
    filter (\<lambda>st. sublist (toLowerCase (searchQuery s)) (symbol st) \<or>
                  contains_ci (name st) (searchQuery s)) (stocks s)"
  using assms by (simp add: filteredStocks_def Let_def str_includes_sublist contains_ci_def)

lemma renderChart_frame:
  "stocks (snd (renderChart symb d s)) = stocks s"
  "requests (snd (renderChart symb d s)) = requests s"
  "currentSymbol (snd (renderChart symb d s)) = currentSymbol s"
  "error (snd (renderChart symb d s)) = error s"
  "searchQuery (snd (renderChart symb d s)) = searchQuery s"
  by (simp_all add: renderChart_def split: option.split)

lemma renderChart_rows:
  "renderChart symb (Some rows) s =
     (Normal, if chartRef s then s\<lparr>chartInstance := Some (build_option symb rows)\<rparr> else s)"
  by (simp add: renderChart_def)

lemma loadChartData_begin_response:
  "fst (loadChartData_begin srv symb s) = kline_endpoint srv (kline_url symb)"
  by (simp add: loadChartData_begin_def axios_get_def)

lemma loadChartData_begin_state:
  "snd (loadChartData_begin srv symb s) =
     s\<lparr>loading := True, error := None, requests := requests s @ [kline_url symb]\<rparr>"
  by (simp add: loadChartData_begin_def axios_get_def)

lemma loadChartData_resume_frame:
  "stocks (loadChartData_resume symb res s) = stocks s"
  "requests (loadChartData_resume symb res s) = requests s"
  "currentSymbol (loadChartData_resume symb res s) = currentSymbol s"
  "searchQuery (loadChartData_resume symb res s) = searchQuery s"
  "\<not> loading (loadChartData_resume symb res s)"
  by (simp_all add: loadChartData_resume_def renderChart_def
      split: response.split option.split)

lemma loadChartData_resume_Rejected:
  "error (loadChartData_resume symb Rejected s) = Some kline_error_text"
  by (simp add: loadChartData_resume_def)

lemma loadChartData_resume_rows:
  "loadChartData_resume symb (Resolved \<lparr> data = Some rows \<rparr>) s =
     (snd (renderChart symb (Some rows) s))\<lparr>loading := False\<rparr>"
  by (simp add: loadChartData_resume_def renderChart_rows)

lemma loadChartData_pieces:
  "loadChartData srv symb s =
     loadChartData_resume symb (kline_endpoint srv (kline_url symb))
       (s\<lparr>loading := True, error := None, requests := requests s @ [kline_url symb]\<rparr>)"
  by (simp add: loadChartData_def loadChartData_begin_def axios_get_def)

lemma loadChartData_requests:
  "requests (loadChartData srv symb s) = requests s @ [kline_url symb]"
  by (simp add: loadChartData_pieces loadChartData_resume_frame)

lemma loadChartData_stocks: "stocks (loadChartData srv symb s) = stocks s"
  by (simp add: loadChartData_pieces loadChartData_resume_frame)

lemma loadChartData_currentSymbol:
  "currentSymbol (loadChartData srv symb s) = currentSymbol s"
  by (simp add: loadChartData_pieces loadChartData_resume_frame)

lemma loadChartData_loading: "\<not> loading (loadChartData srv symb s)"
  by (simp add: loadChartData_pieces loadChartData_resume_frame)

lemma loadChartData_Rejected:
  assumes "kline_endpoint srv (kline_url symb) = Rejected"
  shows "error (loadChartData srv symb s) = Some kline_error_text"
  using assms by (simp add: loadChartData_pieces loadChartData_resume_Rejected)

lemma loadChartData_Resolved:
  assumes "kline_endpoint srv (kline_url symb) = Resolved \<lparr> data = Some rows \<rparr>"
  shows "loadChartData srv symb s =
    (snd (renderChart symb (Some rows)
       (s\<lparr>loading := True, error := None, requests := requests s @ [kline_url symb]\<rparr>)))
    \<lparr>loading := False\<rparr>"
  using assms by (simp add: loadChartData_pieces loadChartData_resume_rows)

lemma selectStock_stocks: "stocks (selectStock srv st s) = stocks s"
  by (simp add: selectStock_def loadChartData_stocks)

lemma selectStock_begin_stocks: "stocks (snd (selectStock_begin srv st s)) = stocks s"
  by (simp add: selectStock_begin_def loadChartData_begin_def axios_get_def)

lemma handle_stocks: "stocks (fst (handle srv e c)) = stocks (fst c)"
proof (cases c)
  case (Pair s fs)
  then show ?thesis
    by (cases e)
      (simp_all add: selectStock_begin_stocks loadChartData_resume_frame split: prod.split,
        metis selectStock_begin_stocks snd_conv)
qed

lemma session_stocks: "stocks (fst (session srv es c)) = stocks (fst c)"
  by (induction es arbitrary: c) (simp_all add: handle_stocks)

text \<open>A click followed at once by the arrival of its response is the uninterrupted
  \<^verbatim>\<open>selectStock\<close>.\<close>

lemma session_click_settle:
  "session srv [Click st, Settle 0] (s, []) = (selectStock srv st s, [])"
  by (simp add: selectStock_begin_def selectStock_def loadChartData_def split: prod.split)

lemma filteredStocks_ref_array: "array_of s (filteredStocks_ref s) = filteredStocks s"
  by (simp add: filteredStocks_ref_def filteredStocks_def Let_def)

lemma filteredStocks_subseq: "subseq (filteredStocks s) (stocks s)"
  by (simp add: filteredStocks_def Let_def)

subsection \<open>The search filter\<close>

text \<open>
  C1. The claim: for every stock list and every non-empty query, the filtered list holds
  exactly the stocks whose symbol or display name contains the query as a
  case-insensitive substring. The source puts the query and the name in lower case but
  compares the symbol as it is, so a symbol with a capital letter is never matched
  through the symbol: with the single stock \<^verbatim>\<open>{symbol: 'AAPL', name: 'Apple Inc'}\<close> and the
  query \<^verbatim>\<open>AAPL\<close> the stock matches in the words of the claim, and the source's filter
  returns the empty list.
\<close>

theorem filteredStocks_misses_capital_symbol:
  "searchQuery searching_AAPL = ''AAPL'' \<and> stocks searching_AAPL = [aapl] \<and>
   spec_matches ''AAPL'' aapl \<and>
   spec_filteredStocks searching_AAPL = [aapl] \<and>
   filteredStocks searching_AAPL = []"
proof -
  have "spec_matches ''AAPL'' aapl"
    by (simp add: spec_matches_def contains_ci_def aapl_def)
  moreover have "filteredStocks searching_AAPL = []"
    by (simp add: filteredStocks_def sample_defs toLowerCase_AAPL toLowerCase_Apple_Inc)
  ultimately show ?thesis
    by (simp add: spec_filteredStocks_def sample_defs)
qed

text \<open>
  C9. For every query the filtered list is an order-preserving sublist (a subsequence) of
  the stored list, and with the empty query the filtered list is the stored list.
\<close>

theorem filteredStocks_subseq_and_identity:
  "subseq (filteredStocks s) (stocks s) \<and> filteredStocks (s\<lparr>searchQuery := []\<rparr>) = stocks s"
  by (simp add: filteredStocks_def Let_def)

subsection \<open>Selecting a stock\<close>

text \<open>
  C2 (as stated). The claim: every click on a stock item re-fetches the series of that
  symbol, also when the clicked symbol is the one already selected. The first line of
  \<^verbatim>\<open>selectStock\<close> returns at once in that case: a click on the stock that is already
  shown issues no request.
\<close>

theorem selectStock_current_symbol_no_request:
  "currentSymbol watching_pf_bank = symbol pf_bank \<and>
   kline_url (symbol pf_bank) \<notin> set (requests (selectStock demo_api pf_bank watching_pf_bank)) \<and>
   requests (selectStock demo_api pf_bank watching_pf_bank) = requests watching_pf_bank"
  by (simp add: selectStock_def watching_pf_bank_def mounted_state_def initial_state_def
      pf_bank_def)

text \<open>
  C2 (amended). A click on the stock whose symbol is already current changes nothing and
  requests nothing. A click on a stock with another symbol makes that symbol current and
  issues exactly one request, to the kline URL of that symbol.
\<close>

theorem selectStock_refetches_other_symbol:
  "selectStock srv st (s\<lparr>currentSymbol := symbol st\<rparr>) = s\<lparr>currentSymbol := symbol st\<rparr> \<and>
   (currentSymbol s \<noteq> symbol st \<longrightarrow>
      currentSymbol (selectStock srv st s) = symbol st \<and>
      requests (selectStock srv st s) = requests s @ [kline_url (symbol st)])"
  by (simp add: selectStock_def loadChartData_requests loadChartData_currentSymbol)

theorem selectStock_refetches_other_symbol_witness:
  "currentSymbol watching_pf_bank \<noteq> symbol aapl \<and>
   currentSymbol (selectStock demo_api aapl watching_pf_bank) = ''AAPL'' \<and>
   requests (selectStock demo_api aapl watching_pf_bank) =
     [''http://localhost:8000/stocks/AAPL/kline'']"
  using selectStock_refetches_other_symbol [of demo_api aapl watching_pf_bank]
  by (simp add: sample_defs)

subsection \<open>The chart columns\<close>

text \<open>
  C3. For a series of \<open>n\<close> rows the chart builder produces the arrays of dates,
  candlestick tuples, volumes, volume colours and of each indicator, all of length \<open>n\<close>;
  at every index \<open>i\<close> below \<open>n\<close> the date is the date of row \<open>i\<close> and the candlestick
  entry is the tuple of open, close, low and high of row \<open>i\<close>. The same arrays are what
  the option carries on its x axes and in its candlestick series.
\<close>

theorem extract_columns_parallel:
  "(let c = extract_columns xs; n = length xs in
     length (dates c) = n \<and> length (klineData c) = n \<and> length (volumes c) = n \<and>
     length (volColors c) = n \<and> length (ma20 c) = n \<and> length (volMa5 c) = n \<and>
     length (macd c) = n \<and> length (diff c) = n \<and> length (dea c) = n \<and>
     length (col_k c) = n \<and> length (col_d c) = n \<and> length (col_j c) = n \<and>
     xAxis_data (build_option symb xs) = [dates c, dates c, dates c, dates c] \<and>
     series_tuples (build_option symb xs) daily_k_name = klineData c \<and>
     (\<forall>i<n. dates c ! i = item_date (xs ! i) \<and>
        klineData c ! i =
          [item_open (xs ! i), item_close (xs ! i), item_low (xs ! i), item_high (xs ! i)]))"
proof -
  have "series_tuples (build_option symb xs) daily_k_name = klineData (extract_columns xs)"
    by (simp add: series_tuples_def series_named_def build_option_def mk_series_def Let_def)
  moreover have "xAxis_data (build_option symb xs) =
      replicate 4 (dates (extract_columns xs))"
    by (simp add: build_option_def Let_def numeral_eq_Suc)
  ultimately show ?thesis
    by (simp add: extract_columns_def Let_def numeral_eq_Suc)
qed

theorem extract_columns_parallel_witness:
  "(1::nat) < length demo_rows \<and>
   length (dates (extract_columns demo_rows)) = 2 \<and>
   length (col_j (extract_columns demo_rows)) = 2 \<and>
   dates (extract_columns demo_rows) ! 1 = ''2024-01-03'' \<and>
   klineData (extract_columns demo_rows) ! 1 = [11, 11, 10, 13]"
  using extract_columns_parallel [of demo_rows "''600000''"]
  by (simp add: demo_rows_def Let_def)

text \<open>
  C4. No indicator is computed: at every index \<open>i\<close> of the input, each of the series
  MA20, VOL_MA5, MACD, DIFF, DEA, K, D and J of the option given to the chart holds the
  field of that name of row \<open>i\<close>, unchanged.
\<close>

theorem indicators_passed_through:
  "\<forall>i<length xs.
     series_numbers (build_option symb xs) ''MA20'' ! i = item_ma20 (xs ! i) \<and>
     series_numbers (build_option symb xs) ''VOL_MA5'' ! i = item_vol_ma5 (xs ! i) \<and>
     series_numbers (build_option symb xs) ''MACD'' ! i = item_macd (xs ! i) \<and>
     series_numbers (build_option symb xs) ''DIFF'' ! i = item_diff (xs ! i) \<and>
     series_numbers (build_option symb xs) ''DEA'' ! i = item_dea (xs ! i) \<and>
     series_numbers (build_option symb xs) ''K'' ! i = item_k (xs ! i) \<and>
     series_numbers (build_option symb xs) ''D'' ! i = item_d (xs ! i) \<and>
     series_numbers (build_option symb xs) ''J'' ! i = item_j (xs ! i)"
  by (simp add: option_defs)

theorem indicators_passed_through_witness:
  "(0::nat) < length demo_rows \<and>
   series_numbers (build_option ''600000'' demo_rows) ''MA20'' ! 0 = 10.5 \<and>
   series_numbers (build_option ''600000'' demo_rows) ''MACD'' ! 0 = 0.2 \<and>
   series_numbers (build_option ''600000'' demo_rows) ''J'' ! 0 = 65"
  using indicators_passed_through [of demo_rows "''600000''"]
  by (simp add: demo_rows_def)

text \<open>
  C10. For every row \<open>i\<close> the colour of the volume bar is \<^verbatim>\<open>#ef232a\<close> exactly when the
  close of the row is strictly greater than its open, and \<^verbatim>\<open>#14b143\<close> otherwise; a
  row whose close equals its open is green.
\<close>

theorem volume_bar_colour:
  assumes "i < length xs"
  shows "(bar_color (build_option symb xs) ''Volume'' i = Some ''#ef232a''
            \<longleftrightarrow> item_close (xs ! i) > item_open (xs ! i)) \<and>
         (bar_color (build_option symb xs) ''Volume'' i = Some ''#14b143''
            \<longleftrightarrow> \<not> item_close (xs ! i) > item_open (xs ! i)) \<and>
         (item_close (xs ! i) = item_open (xs ! i)
            \<longrightarrow> bar_color (build_option symb xs) ''Volume'' i = Some ''#14b143'') \<and>
         volColors (extract_columns xs) ! i =
           (if item_close (xs ! i) > item_open (xs ! i) then ''#ef232a'' else ''#14b143'')"
  using assms by (simp add: option_defs)

theorem volume_bar_colour_witness:
  "(1::nat) < length demo_rows \<and>
   item_close (demo_rows ! 1) = item_open (demo_rows ! 1) \<and>
   bar_color (build_option ''600000'' demo_rows) ''Volume'' 1 = Some ''#14b143'' \<and>
   bar_color (build_option ''600000'' demo_rows) ''Volume'' 0 = Some ''#ef232a''"
proof -
  have len: "(1::nat) < length demo_rows" "(0::nat) < length demo_rows"
    by (simp_all add: demo_rows_def)
  show ?thesis
    using volume_bar_colour [OF len(1), of "''600000''"]
      volume_bar_colour [OF len(2), of "''600000''"]
    by (simp add: demo_rows_def)
qed


subsection \<open>Loading the series\<close>

text \<open>
  C5 (as stated). The claim: a kline fetch that fails leaves the fixed message, is not
  retried and ends with \<^verbatim>\<open>loading\<close> cleared, and on success the error remains null. The
  call of \<^verbatim>\<open>renderChart\<close> stands inside the \<^verbatim>\<open>try\<close> block, so its exception takes the same
  \<^verbatim>\<open>catch\<close> as a failed request: a request that succeeds with a body that has no array
  of rows ends, with the chart element bound, with the error message set.
\<close>

theorem loadChartData_resolved_without_rows_sets_error:
  "kline_endpoint nodata_api (kline_url ''600000'') = Resolved \<lparr> data = None \<rparr> \<and>
   chartRef mounted_state \<and>
   error (loadChartData nodata_api ''600000'' mounted_state) = Some kline_error_text"
  by (simp add: loadChartData_pieces loadChartData_resume_def renderChart_def nodata_api_def
      mounted_state_def initial_state_def)

text \<open>
  Nor is the error null after every success with rows: the error is cleared when a load
  begins and is not touched when it succeeds, so a failure of another load that arrives
  in between stays. Two clicks, then the rejection of the first request and the success
  of the second: the chart of the second stock is shown under the error message.
\<close>

lemma overlapping_loads_error_after_success:
  "session demo_api [Click aapl, Click pf_bank, Settle 0, Settle 0]
     (mounted_state\<lparr>stocks := [pf_bank, aapl]\<rparr>, []) =
   (mounted_state\<lparr>stocks := [pf_bank, aapl], currentSymbol := ''600000'',
      chartInstance := Some (build_option ''600000'' demo_rows),
      error := Some kline_error_text,
      requests := [kline_url ''AAPL'', kline_url ''600000'']\<rparr>, [])"
  by (simp add: selectStock_begin_def loadChartData_begin_def axios_get_def
      loadChartData_resume_def renderChart_def sample_defs)

text \<open>
  C5 (amended). A load issues exactly one request and clears the error when it begins.
  When the request fails, the rest of the load, in whatever state it finds, sets the
  error to the fixed message, issues no request and ends with \<^verbatim>\<open>loading\<close> cleared. When
  the request succeeds with an array of rows, the rest of the load leaves the error as it
  finds it, issues no request and ends with \<^verbatim>\<open>loading\<close> cleared. So a load that nothing
  interrupts ends with the fixed message if its request fails, with a null error if it
  succeeds with an array of rows, and in both cases with one request and \<^verbatim>\<open>loading\<close>
  cleared.
\<close>

theorem loadChartData_failure_and_success:
  "requests (snd (loadChartData_begin srv symb s)) = requests s @ [kline_url symb] \<and>
   error (snd (loadChartData_begin srv symb s)) = None \<and>
   (\<forall>s'. error (loadChartData_resume symb Rejected s') = Some kline_error_text \<and>
      requests (loadChartData_resume symb Rejected s') = requests s' \<and>
      \<not> loading (loadChartData_resume symb Rejected s')) \<and>
   (\<forall>rows s'. error (loadChartData_resume symb (Resolved \<lparr> data = Some rows \<rparr>) s') = error s' \<and>
      requests (loadChartData_resume symb (Resolved \<lparr> data = Some rows \<rparr>) s') = requests s' \<and>
      \<not> loading (loadChartData_resume symb (Resolved \<lparr> data = Some rows \<rparr>) s')) \<and>
   (kline_endpoint srv (kline_url symb) = Rejected \<longrightarrow>
      error (loadChartData srv symb s) = Some kline_error_text \<and>
      requests (loadChartData srv symb s) = requests s @ [kline_url symb] \<and>
      \<not> loading (loadChartData srv symb s)) \<and>
   (\<forall>rows. kline_endpoint srv (kline_url symb) = Resolved \<lparr> data = Some rows \<rparr> \<longrightarrow>
      error (loadChartData srv symb s) = None \<and>
      requests (loadChartData srv symb s) = requests s @ [kline_url symb] \<and>
      \<not> loading (loadChartData srv symb s))"
proof -
  have kept: "error (loadChartData_resume symb (Resolved \<lparr> data = Some rows \<rparr>) s') = error s'"
    for rows s'
    by (simp add: loadChartData_resume_rows renderChart_frame)
  have "error (loadChartData srv symb s) = None"
    if "kline_endpoint srv (kline_url symb) = Resolved \<lparr> data = Some rows \<rparr>" for rows
    using that by (simp add: loadChartData_pieces kept)
  with kept show ?thesis
    by (simp add: loadChartData_Rejected loadChartData_requests loadChartData_loading
        loadChartData_begin_state loadChartData_resume_frame loadChartData_resume_Rejected)
qed

theorem loadChartData_failure_and_success_witness:
  "kline_endpoint demo_api (kline_url ''AAPL'') = Rejected \<and>
   error (loadChartData demo_api ''AAPL'' mounted_state) = Some kline_error_text \<and>
   requests (loadChartData demo_api ''AAPL'' mounted_state) =
     [''http://localhost:8000/stocks/AAPL/kline''] \<and>
   \<not> loading (loadChartData demo_api ''AAPL'' mounted_state) \<and>
   kline_endpoint demo_api (kline_url ''600000'') = Resolved \<lparr> data = Some demo_rows \<rparr> \<and>
   error (loadChartData demo_api ''600000'' mounted_state) = None \<and>
   \<not> loading (loadChartData demo_api ''600000'' mounted_state) \<and>
   error (loadChartData_resume ''600000'' (Resolved \<lparr> data = Some demo_rows \<rparr>)
            (mounted_state\<lparr>error := Some kline_error_text\<rparr>)) = Some kline_error_text"
proof -
  have rej: "kline_endpoint demo_api (kline_url ''AAPL'') = Rejected"
    by (simp add: demo_api_def kline_url_def)
  have res: "kline_endpoint demo_api (kline_url ''600000'') = Resolved \<lparr> data = Some demo_rows \<rparr>"
    by (simp add: demo_api_def)
  show ?thesis
    using loadChartData_failure_and_success [of demo_api "''AAPL''" mounted_state]
      loadChartData_failure_and_success [of demo_api "''600000''" mounted_state] rej res
    by (simp add: kline_url_def API_BASE_def mounted_state_def initial_state_def)
qed

subsection \<open>The two endpoints\<close>

text \<open>
  C6. The list fetch requests \<^verbatim>\<open>{API_BASE}/stocks/list\<close> first and stores the body of the
  response as the stock list. The series fetch requests
  \<^verbatim>\<open>{API_BASE}/stocks/{symbol}/kline\<close> and gives the \<^verbatim>\<open>data\<close> field of the body to
  \<^verbatim>\<open>renderChart\<close>, whatever the body is; when the field is an array of rows, the call
  completes normally and, with the chart element bound, the chart then shows the option
  built from exactly these rows.
\<close>

theorem endpoints_and_bodies:
  "list_url = API_BASE @ ''/stocks/list'' \<and>
   prefix (requests s @ [list_url]) (requests (fetchStocks srv s)) \<and>
   (\<forall>body. stocks_endpoint srv list_url = Resolved body \<longrightarrow>
      stocks (fetchStocks srv s) = body) \<and>
   requests (loadChartData srv symb s) = requests s @ [API_BASE @ ''/stocks/'' @ symb @ ''/kline''] \<and>
   (\<forall>kb. kline_endpoint srv (API_BASE @ ''/stocks/'' @ symb @ ''/kline'') = Resolved kb \<longrightarrow>
      loadChartData srv symb s =
        (case renderChart symb (data kb)
           (s\<lparr>loading := True, error := None,
              requests := requests s @ [API_BASE @ ''/stocks/'' @ symb @ ''/kline'']\<rparr>) of
           (Normal, s') \<Rightarrow> s'
         | (Thrown, s') \<Rightarrow> s'\<lparr>error := Some kline_error_text\<rparr>)
        \<lparr>loading := False\<rparr>) \<and>
   (\<forall>kb rows. kline_endpoint srv (API_BASE @ ''/stocks/'' @ symb @ ''/kline'') = Resolved kb \<and>
        data kb = Some rows \<longrightarrow>
      loadChartData srv symb s =
        (snd (renderChart symb (data kb)
           (s\<lparr>loading := True, error := None,
              requests := requests s @ [API_BASE @ ''/stocks/'' @ symb @ ''/kline'']\<rparr>)))
        \<lparr>loading := False\<rparr> \<and>
      fst (renderChart symb (data kb)
           (s\<lparr>loading := True, error := None,
              requests := requests s @ [API_BASE @ ''/stocks/'' @ symb @ ''/kline'']\<rparr>)) = Normal \<and>
      (chartRef s \<longrightarrow>
         chartInstance (loadChartData srv symb s) = Some (build_option symb rows)))"
proof -
  have req: "prefix (requests s @ [list_url]) (requests (fetchStocks srv s))"
    by (simp add: fetchStocks_def axios_get_def selectStock_def loadChartData_requests Let_def
        split: response.split)
  have body: "stocks (fetchStocks srv s) = body"
    if "stocks_endpoint srv list_url = Resolved body" for body
    using that by (simp add: fetchStocks_def axios_get_def selectStock_stocks Let_def)
  have whole: "kb = \<lparr> data = Some rows \<rparr>" if "data kb = Some rows" for kb :: kline_body and rows
    using that by (cases kb) simp
  have kline: "loadChartData srv symb s =
        (snd (renderChart symb (data kb)
           (s\<lparr>loading := True, error := None, requests := requests s @ [kline_url symb]\<rparr>)))
        \<lparr>loading := False\<rparr>"
    if "kline_endpoint srv (kline_url symb) = Resolved kb" "data kb = Some rows" for kb rows
    using that whole [OF that(2)] loadChartData_Resolved [of srv symb rows s] by simp
  have shown: "chartInstance (loadChartData srv symb s) = Some (build_option symb rows)"
    if "kline_endpoint srv (kline_url symb) = Resolved kb" "data kb = Some rows" "chartRef s"
    for kb rows
    using that by (simp add: kline [OF that(1,2)] renderChart_rows)
  have every: "loadChartData srv symb s =
        (case renderChart symb (data kb)
           (s\<lparr>loading := True, error := None, requests := requests s @ [kline_url symb]\<rparr>) of
           (Normal, s') \<Rightarrow> s'
         | (Thrown, s') \<Rightarrow> s'\<lparr>error := Some kline_error_text\<rparr>)
        \<lparr>loading := False\<rparr>"
    if "kline_endpoint srv (kline_url symb) = Resolved kb" for kb
    using that by (simp add: loadChartData_pieces loadChartData_resume_def)
  from req body every kline shown show ?thesis
    by (simp add: loadChartData_requests list_url_def kline_url_def renderChart_rows)
qed

theorem endpoints_and_bodies_witness:
  "stocks_endpoint demo_api list_url = Resolved [pf_bank, aapl] \<and>
   prefix [''http://localhost:8000/stocks/list''] (requests (fetchStocks demo_api mounted_state)) \<and>
   stocks (fetchStocks demo_api mounted_state) = [pf_bank, aapl] \<and>
   kline_endpoint demo_api (API_BASE @ ''/stocks/'' @ ''600000'' @ ''/kline'') =
     Resolved \<lparr> data = Some demo_rows \<rparr> \<and>
   chartRef mounted_state \<and>
   requests (loadChartData demo_api ''600000'' mounted_state) =
     [''http://localhost:8000/stocks/600000/kline''] \<and>
   chartInstance (loadChartData demo_api ''600000'' mounted_state) =
     Some (build_option ''600000'' demo_rows)"
proof -
  have l: "stocks_endpoint demo_api list_url = Resolved [pf_bank, aapl]"
    by (simp add: demo_api_def)
  have k: "kline_endpoint demo_api (API_BASE @ ''/stocks/'' @ ''600000'' @ ''/kline'') =
      Resolved \<lparr> data = Some demo_rows \<rparr>"
    by (simp add: demo_api_def kline_url_def)
  have m: "chartRef mounted_state" "requests mounted_state = []"
    by (simp_all add: mounted_state_def initial_state_def)
  show ?thesis
    using endpoints_and_bodies [of mounted_state demo_api "''600000''"] l k m
    by (simp add: list_url_def API_BASE_def renderChart_rows)
qed

subsection \<open>The stored list\<close>

text \<open>
  C7 (as stated). The claim: no operation after the fetch modifies the stored list, and
  filtering returns a new list. For the empty query the computed property returns
  \<^verbatim>\<open>stocks.value\<close>, the stored array itself, not a new one.
\<close>

theorem filteredStocks_empty_query_returns_stored_array:
  "searchQuery watching_pf_bank = [] \<and>
   filteredStocks_ref watching_pf_bank = StoredArray \<and>
   filteredStocks_ref watching_pf_bank \<noteq> NewArray (filteredStocks watching_pf_bank)"
  by (simp add: filteredStocks_ref_def watching_pf_bank_def mounted_state_def
      initial_state_def)

text \<open>
  C7 (amended). After the list was fetched, no later operation modifies it: selecting a
  stock, loading a series (in one go or in its two pieces) and rendering a chart leave a
  state with the same stored list, and so does every sequence of inputs, clicks, resizes
  and arriving responses, whatever loads are in flight; stocks are compared as whole
  records, so the symbol and the name of each are unchanged. Filtering reads the state
  only: for a query that is not empty it returns a new list, for the empty query the
  stored list itself, and what it shows after any such sequence is a subsequence of the
  list stored before it.
\<close>

theorem stocks_never_modified:
  "stocks (selectStock srv st s) = stocks s \<and>
   stocks (loadChartData srv symb s) = stocks s \<and>
   stocks (snd (loadChartData_begin srv symb s)) = stocks s \<and>
   stocks (loadChartData_resume symb res s) = stocks s \<and>
   stocks (snd (renderChart symb d s)) = stocks s \<and>
   stocks (fst (session srv es (s, fs))) = stocks s \<and>
   map symbol (stocks (fst (session srv es (s, fs)))) = map symbol (stocks s) \<and>
   map name (stocks (fst (session srv es (s, fs)))) = map name (stocks s) \<and>
   subseq (filteredStocks (fst (session srv es (s, fs)))) (stocks s) \<and>
   array_of s (filteredStocks_ref s) = filteredStocks s \<and>
   (searchQuery s \<noteq> [] \<longrightarrow> filteredStocks_ref s = NewArray (filteredStocks s)) \<and>
   (searchQuery s = [] \<longrightarrow> filteredStocks_ref s = StoredArray)"
proof -
  have "subseq (filteredStocks (fst (session srv es (s, fs))))
      (stocks (fst (session srv es (s, fs))))"
    by (rule filteredStocks_subseq)
  moreover have "searchQuery s \<noteq> [] \<Longrightarrow> filteredStocks_ref s = NewArray (filteredStocks s)"
    by (simp add: filteredStocks_ref_def filteredStocks_def Let_def)
  moreover have "searchQuery s = [] \<Longrightarrow> filteredStocks_ref s = StoredArray"
    by (simp add: filteredStocks_ref_def)
  ultimately show ?thesis
    by (simp add: selectStock_stocks loadChartData_stocks session_stocks renderChart_frame
        loadChartData_begin_state loadChartData_resume_frame filteredStocks_ref_array)
qed

theorem stocks_never_modified_witness:
  "searchQuery searching_AAPL \<noteq> [] \<and>
   filteredStocks_ref searching_AAPL = NewArray [] \<and>
   searchQuery watching_pf_bank = [] \<and>
   filteredStocks_ref watching_pf_bank = StoredArray \<and>
   stocks (fst (session demo_api [Input ''bank'', Click aapl, Click pf_bank, Settle 1, Resize]
                  (watching_pf_bank, []))) = [pf_bank, aapl]"
proof -
  have q: "searchQuery searching_AAPL \<noteq> []" "searchQuery watching_pf_bank = []"
    by (simp_all add: searching_AAPL_def watching_pf_bank_def mounted_state_def
        initial_state_def)
  have f: "filteredStocks searching_AAPL = []"
    by (simp add: filteredStocks_def sample_defs toLowerCase_AAPL toLowerCase_Apple_Inc)
  have st: "stocks watching_pf_bank = [pf_bank, aapl]"
    by (simp add: watching_pf_bank_def)
  show ?thesis
    using stocks_never_modified [of demo_api aapl searching_AAPL "''AAPL''" Rejected None "[]" "[]"]
      stocks_never_modified [of demo_api aapl watching_pf_bank "''AAPL''" Rejected None
        "[Input ''bank'', Click aapl, Click pf_bank, Settle 1, Resize]" "[]"]
      q f st
    by simp
qed

subsection \<open>The list fetch on mount\<close>

text \<open>
  C8 (as stated). The claim: after a successful list fetch with a non-empty list the
  first stock is selected and its series is fetched. \<^verbatim>\<open>fetchStocks\<close> selects through
  \<^verbatim>\<open>selectStock\<close>, which does nothing when the symbol is already current. On mount the
  current symbol is the empty string, so a list whose first stock has the empty string
  as its symbol is stored without any kline request.
\<close>

theorem fetchStocks_first_symbol_current_no_kline:
  "stocks (fetchStocks blank_api mounted_state) = [unnamed_stock] \<and>
   kline_url (symbol unnamed_stock) \<notin> set (requests (fetchStocks blank_api mounted_state)) \<and>
   requests (fetchStocks blank_api mounted_state) = [list_url]"
  by (simp add: fetchStocks_def axios_get_def selectStock_def Let_def sample_defs)

text \<open>
  C8 (amended). After a successful list fetch: if the list is non-empty and the symbol
  of its first stock is not the current symbol, that symbol becomes current and its
  series is requested, right after the list; if the list is empty, the current symbol
  stays and the list request is the only one.
\<close>

theorem fetchStocks_selects_first:
  "(\<forall>st rest. stocks_endpoint srv list_url = Resolved (st # rest) \<and> currentSymbol s \<noteq> symbol st \<longrightarrow>
      stocks (fetchStocks srv s) = st # rest \<and>
      currentSymbol (fetchStocks srv s) = symbol st \<and>
      requests (fetchStocks srv s) = requests s @ [list_url, kline_url (symbol st)]) \<and>
   (stocks_endpoint srv list_url = Resolved [] \<longrightarrow>
      stocks (fetchStocks srv s) = [] \<and>
      currentSymbol (fetchStocks srv s) = currentSymbol s \<and>
      requests (fetchStocks srv s) = requests s @ [list_url])"
  by (simp add: fetchStocks_def axios_get_def selectStock_def Let_def
      loadChartData_requests loadChartData_currentSymbol loadChartData_stocks)

theorem fetchStocks_selects_first_witness:
  "stocks_endpoint demo_api list_url = Resolved (pf_bank # [aapl]) \<and>
   currentSymbol mounted_state \<noteq> symbol pf_bank \<and>
   currentSymbol (fetchStocks demo_api mounted_state) = ''600000'' \<and>
   requests (fetchStocks demo_api mounted_state) =
     [''http://localhost:8000/stocks/list'', ''http://localhost:8000/stocks/600000/kline''] \<and>
   stocks_endpoint empty_api list_url = Resolved [] \<and>
   currentSymbol (fetchStocks empty_api mounted_state) = [] \<and>
   requests (fetchStocks empty_api mounted_state) = [''http://localhost:8000/stocks/list'']"
proof -
  have d: "stocks_endpoint demo_api list_url = Resolved (pf_bank # [aapl])"
    by (simp add: demo_api_def)
  have e: "stocks_endpoint empty_api list_url = Resolved []"
    by (simp add: empty_api_def)
  have m: "currentSymbol mounted_state \<noteq> symbol pf_bank" "currentSymbol mounted_state = []"
    "requests mounted_state = []"
    by (simp_all add: mounted_state_def initial_state_def pf_bank_def)
  show ?thesis
    using fetchStocks_selects_first [of demo_api mounted_state]
      fetchStocks_selects_first [of empty_api mounted_state] d e m
    by (simp add: list_url_def kline_url_def API_BASE_def pf_bank_def)
qed


end
